theory Spec2Isabelle
  imports Main "HOL-Library.Word"
begin

section \<open>Values of the host language\<close>

text \<open>
  \<^verbatim>\<open>src/services/capture.ts\<close> works on loosely typed values, the results of the CBOR
  decoder. They are modelled by one datatype: \<open>JBytes\<close> stands for a byte buffer
  (\<^verbatim>\<open>ArrayBuffer\<close> or \<^verbatim>\<open>Uint8Array\<close>), \<open>JObj\<close> for a plain object given by its
  own properties (the first entry of a name counts), \<open>JNum\<close> for a number (the decoders
  only pass numbers through).
\<close>

type_synonym bytes = "8 word list"

datatype jsval =
    JUndefined
  | JNull
  | JBool bool
  | JNum int
  | JStr string
  | JBytes bytes
  | JArr "jsval list"
  | JObj "(string \<times> jsval) list"

text \<open>
  Every \<^verbatim>\<open>throw\<close> of the two decoders, and every exception the runtime raises in
  them, is a value of \<open>error\<close>. The source throws \<^verbatim>\<open>new Error(message)\<close> throughout; the
  constructors name the throw sites:
  \<^item> \<open>MissingBody\<close>: 'Could not retrieve post data for request' (line 88);
  \<^item> \<open>MalformedEnvelope\<close>: \<^verbatim>\<open>btoa\<close>, \<^verbatim>\<open>base64ToBytes\<close> or \<^verbatim>\<open>cborDecode\<close> threw
    (lines 94-100, 223-226);
  \<^item> \<open>UnexpectedShape\<close>: 'Unreachable: unexpected missing "content" key in decode.'
    (line 105);
  \<^item> \<open>UnknownRequestKind\<close>: 'Unreachable: unexpected result decoded from request.'
    (line 117);
  \<^item> \<open>UnknownCorrelation\<close>: the \<^verbatim>\<open>TypeError\<close> of destructuring the undefined
    \<^verbatim>\<open>messageDetails[message]\<close> (line 159), and 'Unreachable: could not retrieve canister
    and method' (line 285);
  \<^item> \<open>ArgumentDecodeError\<close>: the promise of \<^verbatim>\<open>decodeCandidArgs\<close> was rejected (line 139);
  \<^item> \<open>ReplyDecodeError\<close>: the promise of \<^verbatim>\<open>decodeCandidVals\<close> was rejected
    (lines 254, 317);
  \<^item> \<open>ResponseRequestMismatch\<close>: 'Unreachable: query response follows query request.'
    (line 244) and 'Unreachable: read_state response follows read_state request.'
    (line 269);
  \<^item> \<open>UnexpectedPathPrefix\<close>: 'Unexpected first path fragment' (line 278);
  \<^item> \<open>MissingReplyOnSuccess\<close>: 'Unreachable: successful read_state must have reply'
    (line 313);
  \<^item> \<open>DoneWithoutReply\<close>: 'Call was marked as done but we never saw the reply'
    (line 341);
  \<^item> \<open>UnrecognizedResponseShape\<close>: 'Unreachable: unexpected result decoded from
    response.' (line 236) and the thrown string 'TODO: Call responses' (line 346);
  \<^item> \<open>CollaboratorError\<close>: \<^verbatim>\<open>asPrincipal\<close>, \<^verbatim>\<open>requestIdOf\<close>, \<^verbatim>\<open>new URL\<close> or
    \<^verbatim>\<open>new Certificate\<close> threw;
  \<^item> \<open>TypeError\<close>: any other exception of the runtime (a property read on
    \<^verbatim>\<open>undefined\<close>, \<^verbatim>\<open>in\<close> applied to a primitive, a call of a non-function);
  \<^item> \<open>MissingRejectionDetail\<close>: a failure the specification names; no statement of
    the source raises it.
\<close>

datatype error =
    MissingBody
  | MalformedEnvelope
  | UnexpectedShape
  | UnknownRequestKind
  | UnknownCorrelation
  | ArgumentDecodeError
  | ReplyDecodeError
  | ResponseRequestMismatch
  | UnexpectedPathPrefix
  | MissingReplyOnSuccess
  | MissingRejectionDetail
  | DoneWithoutReply
  | UnrecognizedResponseShape
  | CollaboratorError
  | TypeError

definition andThen :: "error + 'a \<Rightarrow> ('a \<Rightarrow> error + 'b) \<Rightarrow> error + 'b" where
  "andThen m f = (case m of Inl e \<Rightarrow> Inl e | Inr v \<Rightarrow> f v)"

definition orThrow :: "'a option \<Rightarrow> error \<Rightarrow> error + 'a" where
  "orThrow m e = (case m of None \<Rightarrow> Inl e | Some v \<Rightarrow> Inr v)"

subsection \<open>Operators of the host language\<close>

text \<open>\<^verbatim>\<open>!v\<close> is \<open>\<not> truthy v\<close>.\<close>

fun truthy :: "jsval \<Rightarrow> bool" where
  "truthy JUndefined = False"
| "truthy JNull = False"
| "truthy (JBool b) = b"
| "truthy (JNum n) = (n \<noteq> 0)"
| "truthy (JStr s) = (s \<noteq> [])"
| "truthy (JBytes b) = True"
| "truthy (JArr xs) = True"
| "truthy (JObj ps) = True"

text \<open>
  \<^verbatim>\<open>k in v\<close>. The decoders apply it to the keys 'content', 'request_type', 'status',
  'certificate' and 'requestId' only: none of them is an index, and none is inherited
  by an object, an array or a buffer, so for these keys the operator looks at the own
  properties of an object and is false on arrays and buffers. On a primitive the
  operator throws a \<^verbatim>\<open>TypeError\<close>.
\<close>

fun js_in :: "string \<Rightarrow> jsval \<Rightarrow> error + bool" where
  "js_in k (JObj ps) = Inr (k \<in> set (map fst ps))"
| "js_in k (JArr xs) = Inr False"
| "js_in k (JBytes b) = Inr False"
| "js_in k v = Inl TypeError"

text \<open>
  \<^verbatim>\<open>v.k\<close>, for the property names the decoders read (none of them inherited): a
  \<^verbatim>\<open>TypeError\<close> on \<^verbatim>\<open>undefined\<close> and \<^verbatim>\<open>null\<close>, the own property of an object, and
  \<^verbatim>\<open>undefined\<close> otherwise.
\<close>

definition ownProperty :: "(string \<times> jsval) list \<Rightarrow> string \<Rightarrow> jsval" where
  "ownProperty ps k = (case map_of ps k of None \<Rightarrow> JUndefined | Some v \<Rightarrow> v)"

fun getProp :: "jsval \<Rightarrow> string \<Rightarrow> error + jsval" where
  "getProp JUndefined k = Inl TypeError"
| "getProp JNull k = Inl TypeError"
| "getProp (JObj ps) k = Inr (ownProperty ps k)"
| "getProp v k = Inr JUndefined"

text \<open>The decimal name of an index, as the property key of a plain object.\<close>

fun digits :: "nat \<Rightarrow> nat \<Rightarrow> string" where
  "digits 0 n = []"
| "digits (Suc fuel) n =
     (if n < 10 then [char_of (48 + n)]
      else digits fuel (n div 10) @ [char_of (48 + n mod 10)])"

definition indexKey :: "nat \<Rightarrow> string" where
  "indexKey n = digits (Suc n) n"

text \<open>\<^verbatim>\<open>v[i]\<close> for a constant index \<open>i\<close>.\<close>

fun getIndex :: "jsval \<Rightarrow> nat \<Rightarrow> error + jsval" where
  "getIndex JUndefined i = Inl TypeError"
| "getIndex JNull i = Inl TypeError"
| "getIndex (JArr xs) i = Inr (if i < length xs then xs ! i else JUndefined)"
| "getIndex (JBytes b) i = Inr (if i < length b then JNum (uint (b ! i)) else JUndefined)"
| "getIndex (JStr s) i = Inr (if i < length s then JStr [s ! i] else JUndefined)"
| "getIndex (JObj ps) i = Inr (ownProperty ps (indexKey i))"
| "getIndex v i = Inr JUndefined"

text \<open>
  \<^verbatim>\<open>v.flat()\<close>: one level of nesting is removed from an array; no other value has a
  function of that name, and the call throws a \<^verbatim>\<open>TypeError\<close>.
\<close>

fun flatten1 :: "jsval list \<Rightarrow> jsval list" where
  "flatten1 [] = []"
| "flatten1 (JArr ys # xs) = ys @ flatten1 xs"
| "flatten1 (x # xs) = x # flatten1 xs"

fun js_flat :: "jsval \<Rightarrow> error + jsval list" where
  "js_flat (JArr xs) = Inr (flatten1 xs)"
| "js_flat v = Inl TypeError"

section \<open>Collaborators\<close>

text \<open>
  The decoders call into libraries (\<^verbatim>\<open>@dfinity/agent\<close>, \<^verbatim>\<open>cbor-x\<close>, \<^verbatim>\<open>ictool\<close>), into
  the platform (\<^verbatim>\<open>btoa\<close>, \<^verbatim>\<open>URL\<close>, \<^verbatim>\<open>TextDecoder\<close>, \<^verbatim>\<open>TextEncoder\<close>, typed arrays)
  and into two modules of the repository whose text is not at hand (\<^verbatim>\<open>./candid\<close>,
  \<^verbatim>\<open>./common\<close>). They are parameters of the model; \<open>None\<close> means that the call threw
  or that its promise was rejected.
  \<^item> A \<^verbatim>\<open>Principal\<close> is represented by its text (\<^verbatim>\<open>toText()\<close>), a \<^verbatim>\<open>URL\<close> by its
    string.
  \<^item> \<open>newCertificate\<close> is \<^verbatim>\<open>new Certificate(response, new HttpAgent())\<close>; the
    certificate it builds is represented by its \<^verbatim>\<open>lookup\<close> function. A call of it with
    a path of labels returns the bytes of a leaf (\<open>Found\<close>), returns \<^verbatim>\<open>undefined\<close>
    (\<open>NotFound\<close>), or throws (\<open>LookupThrew\<close>), as it does on a certificate that has no
    tree. The source sets the certificate's private field \<^verbatim>\<open>verified\<close>, so that
    \<^verbatim>\<open>lookup\<close> does not check the signature.
  \<^item> \<open>typedArrayFrom\<close> is \<^verbatim>\<open>new Uint8Array(v)\<close> for a \<open>v\<close> that is neither a buffer
    nor \<^verbatim>\<open>undefined\<close> nor \<^verbatim>\<open>null\<close>.
\<close>

datatype lookupResult = LookupThrew | NotFound | Found bytes

type_synonym certificate = "jsval list \<Rightarrow> lookupResult"

text \<open>
  \<^verbatim>\<open>cert.lookup(path)\<close> as the decoder sees it: an exception, or the buffer of the
  leaf, or \<^verbatim>\<open>undefined\<close>.
\<close>

definition lookup :: "certificate \<Rightarrow> jsval list \<Rightarrow> error + bytes option" where
  "lookup cert path =
     (case cert path of
        LookupThrew \<Rightarrow> Inl TypeError
      | NotFound \<Rightarrow> Inr None
      | Found bs \<Rightarrow> Inr (Some bs))"

record collaborators =
  btoa :: "string \<Rightarrow> string option"
  base64ToBytes :: "string \<Rightarrow> bytes option"
  cborDecode :: "bytes \<Rightarrow> jsval option"
  asPrincipal :: "jsval \<Rightarrow> string option"
  requestIdOf :: "jsval \<Rightarrow> bytes option"
  toHexString :: "bytes \<Rightarrow> string"
  newURL :: "string \<Rightarrow> string option"
  typedArrayFrom :: "jsval \<Rightarrow> bytes option"
  decodeCandidArgs :: "string \<Rightarrow> jsval \<Rightarrow> jsval \<Rightarrow> jsval option"
  decodeCandidVals :: "string \<Rightarrow> jsval \<Rightarrow> jsval \<Rightarrow> jsval option"
  newCertificate :: "jsval \<Rightarrow> certificate option"
  textDecode :: "bytes \<Rightarrow> string"
  textEncode :: "string \<Rightarrow> bytes"

text \<open>
  \<^verbatim>\<open>new Uint8Array(v)\<close>: the bytes of a buffer; no bytes at all for \<^verbatim>\<open>undefined\<close> and
  \<^verbatim>\<open>null\<close> (a typed array of length 0).
\<close>

fun newUint8Array :: "collaborators \<Rightarrow> jsval \<Rightarrow> error + bytes" where
  "newUint8Array env (JBytes b) = Inr b"
| "newUint8Array env JUndefined = Inr []"
| "newUint8Array env JNull = Inr []"
| "newUint8Array env v = orThrow (typedArrayFrom env v) TypeError"

text \<open>
  \<^verbatim>\<open>new TextDecoder().decode(v)\<close>: the text of a buffer, the empty string when the
  argument is \<^verbatim>\<open>undefined\<close>, a \<^verbatim>\<open>TypeError\<close> for any other value.
\<close>

fun decodeText :: "collaborators \<Rightarrow> jsval \<Rightarrow> error + string" where
  "decodeText env (JBytes b) = Inr (textDecode env b)"
| "decodeText env JUndefined = Inr []"
| "decodeText env v = Inl TypeError"

section \<open>The capture event and the correlation store\<close>

text \<open>
  What the decoders read of a \<^verbatim>\<open>chrome.devtools.network.Request\<close>: the URL, the text of
  the request body (\<open>None\<close> when \<^verbatim>\<open>postData\<close> or its \<^verbatim>\<open>text\<close> is missing) and the
  content that \<^verbatim>\<open>getContent\<close> hands to its callback (\<open>None\<close> for \<^verbatim>\<open>undefined\<close>).
\<close>

record networkEvent =
  url :: string
  postDataText :: "string option"
  content :: "string option"

text \<open>
  \<^verbatim>\<open>messageDetails\<close> (lines 74-79) is an object used as a dictionary. Its keys are
  results of \<^verbatim>\<open>toHexString\<close>, so a key never names an inherited property and a partial
  map is the dictionary.
\<close>

record messageDetail =
  detailCanisterId :: string
  detailMethod :: jsval

type_synonym messageDetails = "string \<rightharpoonup> messageDetail"

text \<open>\<^verbatim>\<open>messageDetails[message] = { canisterId, method }\<close> (lines 135-138).\<close>

definition putDetails :: "messageDetails \<Rightarrow> string \<Rightarrow> messageDetail \<Rightarrow> messageDetails" where
  "putDetails md message d = md(message \<mapsto> d)"

text \<open>\<^verbatim>\<open>messageDetails[message]\<close> (lines 159, 281).\<close>

definition getDetails :: "messageDetails \<Rightarrow> string \<Rightarrow> messageDetail option" where
  "getDetails md message = md message"

section \<open>Decoding a request\<close>

datatype RequestType = Query | Call | Read_state

record AbstractDecodedRequest =
  message :: string
  requestId :: string
  canisterId :: string
  methodName :: jsval
  sender :: string
  requestType :: RequestType
  ingressExpiry :: jsval
  boundary :: string

text \<open>
  The field \<^verbatim>\<open>method\<close> of the source is \<open>methodName\<close> here. The two shapes of a decoded
  request, under the names of the source:
  \<open>DecodedReadRequest\<close> carries \<^verbatim>\<open>args\<close> (a query or a call), \<open>DecodedCallRequest\<close>
  carries \<^verbatim>\<open>paths\<close> (a read_state).
\<close>

datatype DecodedRequest =
    DecodedReadRequest AbstractDecodedRequest jsval
  | DecodedCallRequest AbstractDecodedRequest jsval

fun common :: "DecodedRequest \<Rightarrow> AbstractDecodedRequest" where
  "common (DecodedReadRequest c a) = c"
| "common (DecodedCallRequest c p) = c"

text \<open>\<^verbatim>\<open>request.paths\<close> of a decoded request: \<^verbatim>\<open>undefined\<close> on the shape without it.\<close>

fun pathsOf :: "DecodedRequest \<Rightarrow> jsval" where
  "pathsOf (DecodedCallRequest c p) = p"
| "pathsOf (DecodedReadRequest c a) = JUndefined"

text \<open>
  \<^verbatim>\<open>request.request_type\<close> after the validation of lines 112-118: one of the three
  strings, or the request is refused.
\<close>

fun requestTypeOf :: "jsval \<Rightarrow> RequestType option" where
  "requestTypeOf (JStr s) =
     (if s = ''query'' then Some Query
      else if s = ''call'' then Some Call
      else if s = ''read_state'' then Some Read_state
      else None)"
| "requestTypeOf v = None"

text \<open>
  Lines 87-125 of \<^verbatim>\<open>decodeRequest\<close>: from the event to the decoded content and the
  parameters common to all request types, in the order (request, sender, requestType,
  ingressExpiry, requestId, boundary).
\<close>

definition requestPrelude ::
  "collaborators \<Rightarrow> networkEvent \<Rightarrow>
     error + (jsval \<times> string \<times> RequestType \<times> jsval \<times> string \<times> string)" where
  "requestPrelude env event =
     (case postDataText event of
        None \<Rightarrow> Inl MissingBody
      | Some requestText \<Rightarrow>
          if requestText = [] then Inl MissingBody
          else
            andThen (orThrow (btoa env requestText) MalformedEnvelope) (\<lambda>b64.
            andThen (orThrow (base64ToBytes env b64) MalformedEnvelope) (\<lambda>bs.
            andThen (orThrow (cborDecode env bs) MalformedEnvelope) (\<lambda>result.
            andThen (js_in ''content'' result) (\<lambda>hasContent.
            if \<not> hasContent then Inl UnexpectedShape
            else
              andThen (getProp result ''content'') (\<lambda>request.
              andThen (js_in ''request_type'' request) (\<lambda>hasType.
              andThen (getProp request ''request_type'') (\<lambda>request_type.
              case (if hasType then requestTypeOf request_type else None) of
                None \<Rightarrow> Inl UnknownRequestKind
              | Some requestType' \<Rightarrow>
                  andThen (getProp request ''sender'') (\<lambda>sender_raw.
                  andThen (orThrow (asPrincipal env sender_raw) CollaboratorError) (\<lambda>sender'.
                  andThen (getProp request ''ingress_expiry'') (\<lambda>ingressExpiry'.
                  andThen (orThrow (requestIdOf env request) CollaboratorError) (\<lambda>rid.
                  andThen (orThrow (newURL env (url event)) CollaboratorError) (\<lambda>boundary'.
                  Inr (request, sender', requestType', ingressExpiry',
                       toHexString env rid, boundary'))))))))))))))"

text \<open>
  \<^verbatim>\<open>decodeRequest\<close> is an \<^verbatim>\<open>async\<close> function with one \<^verbatim>\<open>await\<close>, at line 139. It runs
  without interruption up to that point, where it hands the arguments to
  \<^verbatim>\<open>decodeCandidArgs\<close> and is suspended, and it is resumed with the outcome. A run
  without \<^verbatim>\<open>await\<close> (the read_state branch, or a throw) is \<open>Settled\<close>.
\<close>

datatype progress =
    Settled "error + DecodedRequest"
  | AwaitingArgs AbstractDecodedRequest jsval

text \<open>
  The first path's second label (line 157):
  \<^verbatim>\<open>toHexString([...new Uint8Array(request.paths[0][1])])\<close>.
\<close>

definition readStateMessage :: "collaborators \<Rightarrow> jsval \<Rightarrow> error + string" where
  "readStateMessage env paths =
     andThen (getIndex paths 0) (\<lambda>p0.
     andThen (getIndex p0 1) (\<lambda>label.
     andThen (newUint8Array env label) (\<lambda>bs.
     Inr (toHexString env bs))))"

text \<open>
  Lines 87-139 and 152-171: the run of \<^verbatim>\<open>decodeRequest\<close> up to its suspension or its
  end, with the dictionary it leaves.
\<close>

definition decodeRequestSync ::
  "collaborators \<Rightarrow> networkEvent \<Rightarrow> messageDetails \<Rightarrow> progress \<times> messageDetails" where
  "decodeRequestSync env event md =
     (case requestPrelude env event of
        Inl e \<Rightarrow> (Settled (Inl e), md)
      | Inr (request, sender', requestType', ingressExpiry', requestId', boundary') \<Rightarrow>
          if requestType' = Query \<or> requestType' = Call then
            (case andThen (getProp request ''canister_id'') (\<lambda>cid_raw.
                  andThen (orThrow (asPrincipal env cid_raw) CollaboratorError) (\<lambda>cid.
                  andThen (getProp request ''method_name'') (\<lambda>method_name.
                  andThen (getProp request ''arg'') (\<lambda>arg.
                  Inr (cid, method_name, arg))))) of
               Inl e \<Rightarrow> (Settled (Inl e), md)
             | Inr (canisterId', method', arg) \<Rightarrow>
                 (AwaitingArgs
                    \<lparr> message = requestId', requestId = requestId',
                      canisterId = canisterId', methodName = method', sender = sender',
                      requestType = requestType', ingressExpiry = ingressExpiry',
                      boundary = boundary' \<rparr> arg,
                  putDetails md requestId'
                    \<lparr> detailCanisterId = canisterId', detailMethod = method' \<rparr>))
          else
            (Settled
               (andThen (getProp request ''paths'') (\<lambda>paths.
                andThen (readStateMessage env paths) (\<lambda>message'.
                case getDetails md message' of
                  None \<Rightarrow> Inl UnknownCorrelation
                | Some d \<Rightarrow>
                    Inr (DecodedCallRequest
                      \<lparr> message = message', requestId = requestId',
                        canisterId = detailCanisterId d, methodName = detailMethod d,
                        sender = sender', requestType = requestType',
                        ingressExpiry = ingressExpiry', boundary = boundary' \<rparr> paths)))),
             md))"

text \<open>Lines 139-151: what \<^verbatim>\<open>decodeRequest\<close> does when the awaited promise is settled.\<close>

definition decodeRequestResume ::
  "AbstractDecodedRequest \<Rightarrow> jsval option \<Rightarrow> error + DecodedRequest" where
  "decodeRequestResume c outcome =
     (case outcome of
        None \<Rightarrow> Inl ArgumentDecodeError
      | Some args \<Rightarrow> Inr (DecodedReadRequest c args))"

text \<open>
  A whole run of \<^verbatim>\<open>decodeRequest\<close>: its result, and \<^verbatim>\<open>messageDetails\<close> as this run
  leaves it.
\<close>

definition decodeRequest ::
  "collaborators \<Rightarrow> networkEvent \<Rightarrow> messageDetails \<Rightarrow>
     (error + DecodedRequest) \<times> messageDetails" where
  "decodeRequest env event md =
     (case decodeRequestSync env event md of
        (Settled r, md') \<Rightarrow> (r, md')
      | (AwaitingArgs c arg, md') \<Rightarrow>
          (decodeRequestResume c (decodeCandidArgs env (canisterId c) (methodName c) arg), md'))"

section \<open>Decoding a response\<close>

text \<open>
  The shapes of a decoded response: \<^verbatim>\<open>{ status }\<close>, \<^verbatim>\<open>{ status, reply }\<close> and
  \<^verbatim>\<open>{ status, message, code }\<close>. The fields hold whatever the decoder put there, so
  they are values of the host language. The strings of \<^verbatim>\<open>QueryResponseStatus\<close> and
  \<^verbatim>\<open>RequestStatusResponseStatus\<close> are 'replied', 'rejected', 'received', 'processing',
  'unknown' and 'done'.
\<close>

datatype DecodedResponse =
    StatusResponse jsval
  | RepliedResponse jsval jsval
  | RejectedResponse jsval jsval jsval

text \<open>
  Lines 241-265, the branch of a response with a \<^verbatim>\<open>status\<close> key.
\<close>

definition queryResponse ::
  "collaborators \<Rightarrow> jsval \<Rightarrow> DecodedRequest \<Rightarrow> error + DecodedResponse option" where
  "queryResponse env response request =
     (if requestType (common request) \<noteq> Query then Inl ResponseRequestMismatch
      else
        andThen (getProp response ''status'') (\<lambda>status.
        if status = JStr ''replied'' then
          andThen (getProp response ''reply'') (\<lambda>reply_field.
          andThen (getProp reply_field ''arg'') (\<lambda>arg.
          andThen (orThrow (decodeCandidVals env (canisterId (common request))
                     (methodName (common request)) arg) ReplyDecodeError) (\<lambda>reply.
          Inr (Some (RepliedResponse status reply)))))
        else
          andThen (getProp response ''reject_message'') (\<lambda>message'.
          andThen (getProp response ''reject_code'') (\<lambda>code.
          Inr (Some (RejectedResponse status message' code))))))"

text \<open>
  Lines 296-307: the status of the call, read from the certificate at the flattened
  paths of the request followed by the label 'status'.
\<close>

definition readStateStatus ::
  "collaborators \<Rightarrow> certificate \<Rightarrow> jsval list \<Rightarrow> error + string" where
  "readStateStatus env cert flat =
     andThen (lookup cert (flat @ [JBytes (textEncode env ''status'')])) (\<lambda>result.
     Inr (case result of
            Some bs \<Rightarrow> textDecode env bs
          | None \<Rightarrow> ''unknown''))"

text \<open>
  \<^verbatim>\<open>new Uint8Array(cert.lookup(...)!)[0]\<close> (lines 331-333): the non-null assertion is
  erased by the compiler, and a typed array built from \<^verbatim>\<open>undefined\<close> is empty.
\<close>

definition firstByte :: "bytes option \<Rightarrow> jsval" where
  "firstByte found =
     (case found of
        None \<Rightarrow> JUndefined
      | Some [] \<Rightarrow> JUndefined
      | Some (b # bs) \<Rightarrow> JNum (uint b))"

text \<open>\<^verbatim>\<open>new TextDecoder().decode(cert.lookup(...)!)\<close> (lines 334-336).\<close>

definition leafText :: "collaborators \<Rightarrow> bytes option \<Rightarrow> string" where
  "leafText env found = (case found of None \<Rightarrow> [] | Some b \<Rightarrow> textDecode env b)"

text \<open>
  Lines 309-344, the \<^verbatim>\<open>switch\<close> on the status. It has no default case: on any other
  string the function comes to its end and returns \<^verbatim>\<open>undefined\<close>, here \<open>None\<close>.
\<close>

definition readStateOutcome ::
  "collaborators \<Rightarrow> certificate \<Rightarrow> jsval list \<Rightarrow> messageDetail \<Rightarrow> string \<Rightarrow>
     error + DecodedResponse option" where
  "readStateOutcome env cert flat details status =
     (if status = ''replied'' then
        andThen (lookup cert (flat @ [JStr ''reply''])) (\<lambda>found.
        case found of
          None \<Rightarrow> Inl MissingReplyOnSuccess
        | Some buffer \<Rightarrow>
            andThen (orThrow (decodeCandidVals env (detailCanisterId details)
                       (detailMethod details) (JBytes buffer)) ReplyDecodeError) (\<lambda>reply.
            Inr (Some (RepliedResponse (JStr status) reply))))
      else if status = ''received'' \<or> status = ''unknown'' \<or> status = ''processing'' then
        Inr (Some (StatusResponse (JStr status)))
      else if status = ''rejected'' then
        andThen (lookup cert (flat @ [JStr ''reject_code''])) (\<lambda>code.
        andThen (lookup cert (flat @ [JStr ''reject_message''])) (\<lambda>message'.
        Inr (Some (RejectedResponse (JStr status) (JStr (leafText env message'))
               (firstByte code)))))
      else if status = ''done'' then Inl DoneWithoutReply
      else Inr None)"

text \<open>
  Lines 266-300: the checks of the branch of a response with a \<^verbatim>\<open>certificate\<close> key and
  no \<^verbatim>\<open>status\<close> key, up to the first lookup. They yield the certificate, the flattened
  paths \<^verbatim>\<open>paths.flat()\<close> that every lookup of the branch starts with, and the details
  stored for the message.
\<close>

definition readStateContext ::
  "collaborators \<Rightarrow> jsval \<Rightarrow> DecodedRequest \<Rightarrow> messageDetails \<Rightarrow>
     error + (certificate \<times> jsval list \<times> messageDetail)" where
  "readStateContext env response request md =
     (if requestType (common request) \<noteq> Read_state then Inl ResponseRequestMismatch
      else
        andThen (getIndex (pathsOf request) 0) (\<lambda>path0.
        andThen (getIndex path0 0) (\<lambda>label0.
        andThen (decodeText env label0) (\<lambda>p1.
        if p1 \<noteq> ''request_status'' then Inl UnexpectedPathPrefix
        else
          (case getDetails md (message (common request)) of
             None \<Rightarrow> Inl UnknownCorrelation
           | Some details \<Rightarrow>
               andThen (orThrow (newCertificate env response) CollaboratorError) (\<lambda>cert.
               andThen (js_flat (pathsOf request)) (\<lambda>flat.
               Inr (cert, flat, details))))))))"

text \<open>Lines 266-344: the whole branch.\<close>

definition readStateResponse ::
  "collaborators \<Rightarrow> jsval \<Rightarrow> DecodedRequest \<Rightarrow> messageDetails \<Rightarrow>
     error + DecodedResponse option" where
  "readStateResponse env response request md =
     andThen (readStateContext env response request md) (\<lambda>(cert, flat, details).
     andThen (readStateStatus env cert flat) (\<lambda>status.
     readStateOutcome env cert flat details status))"

text \<open>Lines 228-348: the validation of the decoded response and the dispatch on its keys.\<close>

definition decodeResponseBody ::
  "collaborators \<Rightarrow> jsval \<Rightarrow> DecodedRequest \<Rightarrow> messageDetails \<Rightarrow>
     error + DecodedResponse option" where
  "decodeResponseBody env response request md =
     (if \<not> truthy response then Inl UnrecognizedResponseShape
      else
        andThen (js_in ''status'' response) (\<lambda>hasStatus.
        andThen (js_in ''certificate'' response) (\<lambda>hasCertificate.
        andThen (js_in ''requestId'' response) (\<lambda>hasRequestId.
        if \<not> hasStatus \<and> \<not> hasCertificate \<and> \<not> hasRequestId
        then Inl UnrecognizedResponseShape
        else if hasStatus then queryResponse env response request
        else if hasCertificate then readStateResponse env response request md
        else Inl UnrecognizedResponseShape))))"

text \<open>Lines 222-226: from the content of the response to the decoded value.\<close>

definition responseEnvelope :: "collaborators \<Rightarrow> string \<Rightarrow> error + jsval" where
  "responseEnvelope env content' =
     andThen (orThrow (base64ToBytes env content') MalformedEnvelope) (\<lambda>bs.
     orThrow (cborDecode env bs) MalformedEnvelope)"

text \<open>
  \<^verbatim>\<open>decodeResponse\<close> (lines 206-348). It reads \<^verbatim>\<open>messageDetails\<close> and never writes it.
\<close>

definition decodeResponse ::
  "collaborators \<Rightarrow> networkEvent \<Rightarrow> DecodedRequest \<Rightarrow> messageDetails \<Rightarrow>
     error + DecodedResponse option" where
  "decodeResponse env event request md =
     (case content event of
        None \<Rightarrow> Inr (Some (StatusResponse (JStr ''unknown'')))
      | Some content' \<Rightarrow>
          if content' = [] then Inr (Some (StatusResponse (JStr ''unknown'')))
          else
            andThen (responseEnvelope env content') (\<lambda>response.
            decodeResponseBody env response request md))"

section \<open>A concrete instance\<close>

text \<open>
  A small instance of the collaborators, on which the decoders can be run: tables in
  the place of the codecs, ASCII for the text codec, and a certificate given as the list
  of its leaves, each with the path that leads to it. As the library does, the lookup
  of the instance reads a label given as a string as the bytes of that string.
\<close>

definition sampleEncode :: "string \<Rightarrow> bytes" where
  "sampleEncode s = map (\<lambda>c. of_nat (of_char c)) s"

definition sampleDecode :: "bytes \<Rightarrow> string" where
  "sampleDecode bs = map (\<lambda>b. char_of (unat b)) bs"

definition hexDigit :: "nat \<Rightarrow> char" where
  "hexDigit n = ''0123456789abcdef'' ! n"

definition sampleHex :: "bytes \<Rightarrow> string" where
  "sampleHex bs = concat (map (\<lambda>b. [hexDigit (unat b div 16), hexDigit (unat b mod 16)]) bs)"

fun sampleLabel :: "jsval \<Rightarrow> jsval" where
  "sampleLabel (JStr s) = JBytes (sampleEncode s)"
| "sampleLabel v = v"

fun sampleLeaves :: "jsval list \<Rightarrow> (jsval list \<times> bytes) list" where
  "sampleLeaves [] = []"
| "sampleLeaves (JArr [JArr path, JBytes bs] # es) = (path, bs) # sampleLeaves es"
| "sampleLeaves (e # es) = sampleLeaves es"

definition sampleLookup :: "jsval list \<Rightarrow> certificate" where
  "sampleLookup es path =
     (case map_of (sampleLeaves es) (map sampleLabel path) of
        None \<Rightarrow> NotFound
      | Some bs \<Rightarrow> Found bs)"

definition sampleCertificate :: "jsval \<Rightarrow> certificate option" where
  "sampleCertificate response =
     (case getProp response ''certificate'' of
        Inr (JArr es) \<Rightarrow> Some (sampleLookup es)
      | _ \<Rightarrow> None)"

definition sampleRequestIdOf :: "jsval \<Rightarrow> bytes option" where
  "sampleRequestIdOf v =
     (case v of
        JObj ps \<Rightarrow>
          (case ownProperty ps ''request_type'' of
             JStr kind \<Rightarrow> Some [of_nat (length ps), of_nat (length kind)]
           | _ \<Rightarrow> None)
      | _ \<Rightarrow> None)"

definition samplePrincipal :: "jsval \<Rightarrow> string option" where
  "samplePrincipal v =
     (case v of
        JBytes b \<Rightarrow> (if b = [] then Some ''aaaaa-aa''
                     else if b = [4] then Some ''2vxsx-fae'' else None)
      | _ \<Rightarrow> None)"

text \<open>
  The sample traffic, as the CBOR decoder of the instance returns it: a call of
  \<open>greet\<close> on the canister \<open>aaaaa-aa\<close>, a query of the same method, and a poll for
  the call, whose only path is 'request_status' followed by the identifier of the call.
\<close>

definition callContent :: jsval where
  "callContent = JObj
     [(''request_type'', JStr ''call''), (''canister_id'', JBytes []),
      (''method_name'', JStr ''greet''), (''arg'', JBytes [0x44, 0x49, 0x44, 0x4C, 0, 0]),
      (''sender'', JBytes [4]), (''ingress_expiry'', JNum 1700000000)]"

definition queryContent :: jsval where
  "queryContent = JObj
     [(''request_type'', JStr ''query''), (''canister_id'', JBytes []),
      (''method_name'', JStr ''greet''), (''arg'', JBytes [0x44, 0x49, 0x44, 0x4C, 0, 0]),
      (''sender'', JBytes [4]), (''ingress_expiry'', JNum 1700000000)]"

definition pollPath :: "jsval list" where
  "pollPath = [JBytes (sampleEncode ''request_status''), JBytes [6, 4]]"

definition pollContent :: jsval where
  "pollContent = JObj
     [(''request_type'', JStr ''read_state''), (''paths'', JArr [JArr pollPath]),
      (''sender'', JBytes [4]), (''ingress_expiry'', JNum 1700000000)]"

text \<open>A poll with two paths: the status of the call, and the time of the subnet.\<close>

definition timePath :: "jsval list" where
  "timePath = [JBytes (sampleEncode ''time'')]"

definition twoPathContent :: jsval where
  "twoPathContent = JObj
     [(''request_type'', JStr ''read_state''), (''paths'', JArr [JArr pollPath, JArr timePath]),
      (''sender'', JBytes [4]), (''ingress_expiry'', JNum 1700000000)]"

text \<open>
  The sample responses: certificates in which the status of the call is 'rejected'
  without and with the details of the rejection, one in which it is 'done', one in which
  it is 'processing', one from which the call has been pruned; a query response that is rejected and has no other
  field; an object with both a \<^verbatim>\<open>status\<close> and a \<^verbatim>\<open>certificate\<close> key.
\<close>

definition leaf :: "string \<Rightarrow> bytes \<Rightarrow> jsval" where
  "leaf name bs = JArr [JArr (pollPath @ [JBytes (sampleEncode name)]), JBytes bs]"

definition rejectedBare :: jsval where
  "rejectedBare = JObj [(''certificate'', JArr [leaf ''status'' (sampleEncode ''rejected'')])]"

definition rejectedFull :: jsval where
  "rejectedFull = JObj [(''certificate'', JArr
     [leaf ''status'' (sampleEncode ''rejected''), leaf ''reject_code'' [3],
      leaf ''reject_message'' (sampleEncode ''canister trapped'')])]"

definition doneBody :: jsval where
  "doneBody = JObj [(''certificate'', JArr [leaf ''status'' (sampleEncode ''done'')])]"

definition processingBody :: jsval where
  "processingBody =
     JObj [(''certificate'', JArr [leaf ''status'' (sampleEncode ''processing'')])]"

definition prunedBody :: jsval where
  "prunedBody = JObj [(''certificate'', JArr [])]"

definition queryRejected :: jsval where
  "queryRejected = JObj [(''status'', JStr ''rejected'')]"

definition bothKeys :: jsval where
  "bothKeys = JObj [(''status'', JStr ''rejected''), (''certificate'', JArr [])]"

definition sampleBodies :: "(bytes \<times> jsval) list" where
  "sampleBodies =
     [([1], JObj [(''content'', callContent)]), ([2], JObj [(''content'', pollContent)]),
      ([3], rejectedBare), ([4], rejectedFull), ([5], doneBody), ([6], prunedBody),
      ([7], queryRejected), ([8], bothKeys), ([9], JObj [(''content'', queryContent)]),
      ([10], processingBody), ([11], JObj [(''content'', twoPathContent)])]"

definition sampleBase64 :: "(string \<times> bytes) list" where
  "sampleBase64 =
     [(''AQ=='', [1]), (''Ag=='', [2]), (''Aw=='', [3]), (''BA=='', [4]),
      (''BQ=='', [5]), (''Bg=='', [6]), (''Bw=='', [7]), (''CA=='', [8]),
      (''CQ=='', [9]), (''Cg=='', [10]), (''Cw=='', [11])]"

definition sampleBtoa :: "(string \<times> string) list" where
  "sampleBtoa =
     [([CHR 0x01], ''AQ==''), ([CHR 0x02], ''Ag==''), ([CHR 0x09], ''CQ==''),
      ([CHR 0x0B], ''Cw=='')]"

definition sampleEnv :: collaborators where
  "sampleEnv =
     \<lparr> btoa = map_of sampleBtoa,
       base64ToBytes = map_of sampleBase64,
       cborDecode = map_of sampleBodies,
       asPrincipal = samplePrincipal,
       requestIdOf = sampleRequestIdOf,
       toHexString = sampleHex,
       newURL = Some,
       typedArrayFrom = (\<lambda>v. None),
       decodeCandidArgs = (\<lambda>canister name arg. Some arg),
       decodeCandidVals = (\<lambda>canister name arg. Some arg),
       newCertificate = sampleCertificate,
       textDecode = sampleDecode,
       textEncode = sampleEncode \<rparr>"

text \<open>The same instance with an argument decoder whose promise is always rejected.\<close>

definition failingEnv :: collaborators where
  "failingEnv = sampleEnv \<lparr> decodeCandidArgs := (\<lambda>canister name arg. None) \<rparr>"

text \<open>The same instance with an argument decoder that wraps its result.\<close>

definition wrappingEnv :: collaborators where
  "wrappingEnv = sampleEnv \<lparr> decodeCandidArgs :=
     (\<lambda>canister name arg. Some (JObj [(''result'', arg), (''withInterface'', JBool False)])) \<rparr>"

definition callURL :: string where
  "callURL = ''https://ic0.app/api/v2/canister/aaaaa-aa/call''"

definition queryURL :: string where
  "queryURL = ''https://ic0.app/api/v2/canister/aaaaa-aa/query''"

definition pollURL :: string where
  "pollURL = ''https://ic0.app/api/v2/canister/aaaaa-aa/read_state''"

definition callEvent :: networkEvent where
  "callEvent = \<lparr> url = callURL, postDataText = Some [CHR 0x01], content = None \<rparr>"

definition queryEvent :: "string \<Rightarrow> networkEvent" where
  "queryEvent body = \<lparr> url = queryURL, postDataText = Some [CHR 0x09], content = Some body \<rparr>"

definition pollEvent :: "string \<Rightarrow> networkEvent" where
  "pollEvent body = \<lparr> url = pollURL, postDataText = Some [CHR 0x02], content = Some body \<rparr>"

definition twoPathEvent :: "string \<Rightarrow> networkEvent" where
  "twoPathEvent body = \<lparr> url = pollURL, postDataText = Some [CHR 0x0B], content = Some body \<rparr>"

text \<open>
  The parameters of the sample requests as \<^verbatim>\<open>decodeRequest\<close> computes them, the
  details that the call leaves in the dictionary, and the dictionary after the call.
\<close>

definition callCommon :: AbstractDecodedRequest where
  "callCommon =
     \<lparr> message = ''0604'', requestId = ''0604'', canisterId = ''aaaaa-aa'',
       methodName = JStr ''greet'', sender = ''2vxsx-fae'', requestType = Call,
       ingressExpiry = JNum 1700000000, boundary = callURL \<rparr>"

definition queryRequest :: DecodedRequest where
  "queryRequest = DecodedReadRequest
     \<lparr> message = ''0605'', requestId = ''0605'', canisterId = ''aaaaa-aa'',
       methodName = JStr ''greet'', sender = ''2vxsx-fae'', requestType = Query,
       ingressExpiry = JNum 1700000000, boundary = queryURL \<rparr>
     (JBytes [0x44, 0x49, 0x44, 0x4C, 0, 0])"

definition pollRequest :: DecodedRequest where
  "pollRequest = DecodedCallRequest
     \<lparr> message = ''0604'', requestId = ''040a'', canisterId = ''aaaaa-aa'',
       methodName = JStr ''greet'', sender = ''2vxsx-fae'', requestType = Read_state,
       ingressExpiry = JNum 1700000000, boundary = pollURL \<rparr>
     (JArr [JArr pollPath])"

definition twoPathRequest :: DecodedRequest where
  "twoPathRequest = DecodedCallRequest
     \<lparr> message = ''0604'', requestId = ''040a'', canisterId = ''aaaaa-aa'',
       methodName = JStr ''greet'', sender = ''2vxsx-fae'', requestType = Read_state,
       ingressExpiry = JNum 1700000000, boundary = pollURL \<rparr>
     (JArr [JArr pollPath, JArr timePath])"

definition greetDetail :: messageDetail where
  "greetDetail = \<lparr> detailCanisterId = ''aaaaa-aa'', detailMethod = JStr ''greet'' \<rparr>"

definition sampleDetails :: messageDetails where
  "sampleDetails = putDetails Map.empty ''0604'' greetDetail"

section \<open>Evaluation and auxiliary facts\<close>

lemmas sample_defs = sampleEnv_def failingEnv_def wrappingEnv_def sampleBodies_def
  sampleBase64_def sampleBtoa_def sampleCertificate_def sampleLookup_def
  sampleRequestIdOf_def samplePrincipal_def sampleEncode_def sampleDecode_def sampleHex_def
  hexDigit_def callContent_def queryContent_def pollContent_def twoPathContent_def
  pollPath_def timePath_def leaf_def rejectedBare_def rejectedFull_def doneBody_def
  processingBody_def prunedBody_def queryRejected_def bothKeys_def callEvent_def
  pollEvent_def twoPathEvent_def queryEvent_def callURL_def queryURL_def pollURL_def
  callCommon_def pollRequest_def twoPathRequest_def queryRequest_def greetDetail_def
  sampleDetails_def char_of_eq_iff

lemmas request_defs = decodeRequest_def decodeRequestSync_def decodeRequestResume_def
  requestPrelude_def readStateMessage_def indexKey_def andThen_def orThrow_def
  getDetails_def putDetails_def ownProperty_def

lemmas response_defs = decodeResponse_def responseEnvelope_def decodeResponseBody_def
  readStateResponse_def readStateContext_def readStateOutcome_def readStateStatus_def
  queryResponse_def firstByte_def leafText_def lookup_def andThen_def orThrow_def
  getDetails_def putDetails_def ownProperty_def

lemma andThen_Inr: "andThen m f = Inr y \<Longrightarrow> \<exists>x. m = Inr x \<and> f x = Inr y"
  by (cases m) (auto simp: andThen_def)

lemma andThen_Inl: "andThen m f = Inl e \<Longrightarrow> m = Inl e \<or> (\<exists>x. m = Inr x \<and> f x = Inl e)"
  by (cases m) (auto simp: andThen_def)

lemma orThrow_Inr: "orThrow m e = Inr x \<Longrightarrow> m = Some x"
  by (cases m) (auto simp: orThrow_def)

lemma orThrow_Inl: "orThrow m e = Inl e' \<Longrightarrow> e' = e"
  by (cases m) (auto simp: orThrow_def)

lemma js_in_object: "js_in k v = Inr True \<Longrightarrow> \<exists>ps. v = JObj ps \<and> k \<in> set (map fst ps)"
  by (cases v) auto

lemma js_in_error: "js_in k v = Inl e \<Longrightarrow> e = TypeError"
  by (cases v) auto

lemma getProp_error: "getProp v k = Inl e \<Longrightarrow> e = TypeError"
  by (cases v) auto

lemma getIndex_error: "getIndex v i = Inl e \<Longrightarrow> e = TypeError"
  by (cases v) auto

lemma decodeText_error: "decodeText env v = Inl e \<Longrightarrow> e = TypeError"
  by (cases v) auto

lemma js_flat_error: "js_flat v = Inl e \<Longrightarrow> e = TypeError"
  by (cases v) auto

lemma lookup_error: "lookup cert path = Inl e \<Longrightarrow> e = TypeError"
  by (auto simp: lookup_def split: lookupResult.splits)

lemma js_flat_single: "js_flat (JArr [JArr path]) = Inr path"
  by simp

subsection \<open>The stages of the response decoder\<close>

lemma decodeResponse_body:
  assumes "content event = Some c" and "c \<noteq> []" and "responseEnvelope env c = Inr response"
  shows "decodeResponse env event request md = decodeResponseBody env response request md"
  using assms by (simp add: decodeResponse_def andThen_def)

lemma body_status:
  assumes "js_in ''status'' response = Inr True"
  shows "decodeResponseBody env response request md = queryResponse env response request"
proof -
  from assms obtain ps where "response = JObj ps" and "''status'' \<in> set (map fst ps)"
    using js_in_object by blast
  then show ?thesis by (simp add: decodeResponseBody_def andThen_def)
qed

lemma body_certificate:
  assumes "js_in ''certificate'' response = Inr True"
    and "js_in ''status'' response = Inr False"
  shows "decodeResponseBody env response request md = readStateResponse env response request md"
proof -
  from assms(1) obtain ps where "response = JObj ps" and "''certificate'' \<in> set (map fst ps)"
    using js_in_object by blast
  with assms(2) show ?thesis by (simp add: decodeResponseBody_def andThen_def)
qed

lemma readState_switch:
  assumes "content event = Some c" and "c \<noteq> []" and "responseEnvelope env c = Inr response"
    and "js_in ''certificate'' response = Inr True"
    and "js_in ''status'' response = Inr False"
    and "readStateContext env response request md = Inr (cert, flat, details)"
  shows "decodeResponse env event request md =
           andThen (readStateStatus env cert flat) (readStateOutcome env cert flat details)"
  using assms
  by (simp add: decodeResponse_body body_certificate readStateResponse_def andThen_def)


text \<open>
  When the status read from the certificate is 'rejected' and the two other lookups
  return, the outcome is the rejected shape whatever they find; with both leaves there,
  the code is the first byte of the one and the message the text of the other.
\<close>

lemma rejected_outcome:
  assumes "lookup cert (flat @ [JStr ''reject_code'']) = Inr code"
    and "lookup cert (flat @ [JStr ''reject_message'']) = Inr text"
  shows "readStateOutcome env cert flat details ''rejected'' =
     Inr (Some (RejectedResponse (JStr ''rejected'') (JStr (leafText env text))
            (firstByte code)))"
  using assms by (simp add: readStateOutcome_def andThen_def)

lemma rejected_with_detail:
  assumes "cert (flat @ [JStr ''reject_code'']) = Found (b # bs)"
    and "cert (flat @ [JStr ''reject_message'']) = Found text"
  shows "readStateOutcome env cert flat details ''rejected'' =
     Inr (Some (RejectedResponse (JStr ''rejected'') (JStr (textDecode env text))
            (JNum (uint b))))"
  using assms
  by (simp add: readStateOutcome_def lookup_def andThen_def leafText_def firstByte_def)

text \<open>No run of the response decoder ends in \<open>MissingRejectionDetail\<close>.\<close>

lemma status_no_detail_error:
  "readStateStatus env cert flat \<noteq> Inl MissingRejectionDetail"
  by (simp add: readStateStatus_def andThen_def lookup_def split: lookupResult.splits)

lemma outcome_no_detail_error:
  "readStateOutcome env cert flat details status \<noteq> Inl MissingRejectionDetail"
  by (simp add: readStateOutcome_def andThen_def orThrow_def lookup_def
      split: lookupResult.splits option.splits)

lemma context_no_detail_error:
  "readStateContext env response request md \<noteq> Inl MissingRejectionDetail"
  by (auto simp: readStateContext_def split: option.splits if_splits
      dest!: andThen_Inl orThrow_Inl getIndex_error decodeText_error js_flat_error)

lemma readState_no_detail_error:
  "readStateResponse env response request md \<noteq> Inl MissingRejectionDetail"
proof
  assume "readStateResponse env response request md = Inl MissingRejectionDetail"
  then consider "readStateContext env response request md = Inl MissingRejectionDetail"
    | cert flat where "readStateStatus env cert flat = Inl MissingRejectionDetail"
    | cert flat details status where
      "readStateOutcome env cert flat details status = Inl MissingRejectionDetail"
    unfolding readStateResponse_def by (auto dest!: andThen_Inl)
  then show False
    using context_no_detail_error status_no_detail_error outcome_no_detail_error
    by cases blast+
qed

lemma query_no_detail_error:
  "queryResponse env response request \<noteq> Inl MissingRejectionDetail"
  by (auto simp: queryResponse_def split: if_splits
      dest!: andThen_Inl orThrow_Inl getProp_error)

lemma body_no_detail_error:
  "decodeResponseBody env response request md \<noteq> Inl MissingRejectionDetail"
  using query_no_detail_error [of env response request]
    readState_no_detail_error [of env response request md]
  by (auto simp: decodeResponseBody_def split: if_splits dest!: andThen_Inl js_in_error)

lemma decodeResponse_no_detail_error:
  "decodeResponse env event request md \<noteq> Inl MissingRejectionDetail"
  using body_no_detail_error [of env _ request md]
  by (auto simp: decodeResponse_def responseEnvelope_def split: option.splits if_splits
      dest!: andThen_Inl orThrow_Inl)

subsection \<open>The stages of the request decoder\<close>

lemma prelude_source:
  assumes "requestPrelude env event = Inr (request, s, rt, ie, rid, b)"
  shows "\<exists>t b64 bs result idb.
           postDataText event = Some t \<and> btoa env t = Some b64
           \<and> base64ToBytes env b64 = Some bs \<and> cborDecode env bs = Some result
           \<and> getProp result ''content'' = Inr request
           \<and> requestIdOf env request = Some idb \<and> rid = toHexString env idb"
  using assms unfolding requestPrelude_def
  by (auto split: option.splits if_splits dest!: andThen_Inr orThrow_Inr)

lemma prelude_kind:
  assumes "requestPrelude env event = Inr (request, s, rt, ie, rid, b)"
  shows "\<exists>v. getProp request ''request_type'' = Inr v \<and> requestTypeOf v = Some rt"
  using assms unfolding requestPrelude_def
  by (auto split: option.splits if_splits dest!: andThen_Inr orThrow_Inr)

lemma run_read_state:
  assumes "requestPrelude env event = Inr (request, s, Read_state, ie, rid, b)"
    and "getProp request ''paths'' = Inr paths"
    and "readStateMessage env paths = Inr m"
  shows "decodeRequest env event md =
           ((case getDetails md m of
               None \<Rightarrow> Inl UnknownCorrelation
             | Some d \<Rightarrow> Inr (DecodedCallRequest
                 \<lparr> message = m, requestId = rid, canisterId = detailCanisterId d,
                   methodName = detailMethod d, sender = s, requestType = Read_state,
                   ingressExpiry = ie, boundary = b \<rparr> paths)), md)"
  using assms by (simp add: decodeRequest_def decodeRequestSync_def andThen_def)

lemma sync_call:
  assumes "requestPrelude env event = Inr (request, s, rt, ie, rid, b)"
    and "rt = Query \<or> rt = Call"
    and "getProp request ''canister_id'' = Inr cr" and "asPrincipal env cr = Some cid"
    and "getProp request ''method_name'' = Inr m"
    and "getProp request ''arg'' = Inr a"
  shows "decodeRequestSync env event md =
           (AwaitingArgs
              \<lparr> message = rid, requestId = rid, canisterId = cid, methodName = m, sender = s,
                requestType = rt, ingressExpiry = ie, boundary = b \<rparr> a,
            putDetails md rid \<lparr> detailCanisterId = cid, detailMethod = m \<rparr>)"
  using assms by (auto simp: decodeRequestSync_def andThen_def orThrow_def)

lemma decoded_request_origin:
  assumes "decodeRequest env event md = (Inr r, md')"
  shows "\<exists>request s rt ie rid b.
           requestPrelude env event = Inr (request, s, rt, ie, rid, b)
           \<and> requestId (common r) = rid \<and> requestType (common r) = rt
           \<and> (rt \<noteq> Read_state \<longrightarrow> message (common r) = rid
                \<and> md' rid = Some \<lparr> detailCanisterId = canisterId (common r),
                                   detailMethod = methodName (common r) \<rparr>)"
proof (cases "requestPrelude env event")
  case (Inl e)
  with assms show ?thesis
    by (simp add: decodeRequest_def decodeRequestSync_def)
next
  case (Inr t)
  then obtain request s rt ie rid b where
    p: "requestPrelude env event = Inr (request, s, rt, ie, rid, b)"
    by (cases t) auto
  show ?thesis
  proof (cases "rt = Read_state")
    case True
    with assms p show ?thesis
      by (auto simp: decodeRequest_def decodeRequestSync_def split: option.splits
          dest!: andThen_Inr)
  next
    case False
    then have "rt = Query \<or> rt = Call"
      by (cases rt) auto
    with assms p show ?thesis
      by (auto simp: decodeRequest_def decodeRequestSync_def decodeRequestResume_def
          putDetails_def split: sum.splits option.splits)
  qed
qed

section \<open>The claims\<close>

text \<open>
  C1. The specification requires, for a status-poll response whose status read from the
  certificate is 'rejected', both the leaf 'reject_code' and the leaf 'reject_message',
  and a failure \<open>MissingRejectionDetail\<close> when one is absent. The decoder does not check:
  on the sample certificate that holds the status 'rejected' and neither of the two
  leaves it returns the rejected shape, with the empty string as message and
  \<^verbatim>\<open>undefined\<close> as code.
\<close>

theorem rejected_without_detail_is_returned:
  "responseEnvelope sampleEnv ''Aw=='' = Inr rejectedBare
   \<and> readStateContext sampleEnv rejectedBare pollRequest sampleDetails
       = Inr (sampleLookup [leaf ''status'' (sampleEncode ''rejected'')], pollPath, greetDetail)
   \<and> sampleLookup [leaf ''status'' (sampleEncode ''rejected'')]
        (pollPath @ [JStr ''reject_code'']) = NotFound
   \<and> sampleLookup [leaf ''status'' (sampleEncode ''rejected'')]
        (pollPath @ [JStr ''reject_message'']) = NotFound
   \<and> decodeResponse sampleEnv (pollEvent ''Aw=='') pollRequest sampleDetails
       = Inr (Some (RejectedResponse (JStr ''rejected'') (JStr []) JUndefined))"
  by (simp add: response_defs sample_defs)

text \<open>
  C2. When a read_state request reaches the lookup of its message (the hexadecimal form
  of the second label of its first path) and \<^verbatim>\<open>messageDetails\<close> has no entry for it, the
  run of \<^verbatim>\<open>decodeRequest\<close> fails with \<open>UnknownCorrelation\<close>, returns no request and leaves
  the dictionary as it was.
\<close>

theorem unknown_correlation:
  assumes "requestPrelude env event = Inr (request, s, Read_state, ie, rid, b)"
    and "getProp request ''paths'' = Inr paths"
    and "readStateMessage env paths = Inr m"
    and "getDetails md m = None"
  shows "decodeRequest env event md = (Inl UnknownCorrelation, md)"
  using run_read_state [OF assms(1-3), of md] assms(4) by simp

theorem unknown_correlation_witness:
  "requestPrelude sampleEnv (pollEvent ''Bg=='')
     = Inr (pollContent, ''2vxsx-fae'', Read_state, JNum 1700000000, ''040a'', pollURL)
   \<and> getProp pollContent ''paths'' = Inr (JArr [JArr pollPath])
   \<and> readStateMessage sampleEnv (JArr [JArr pollPath]) = Inr ''0604''
   \<and> getDetails Map.empty ''0604'' = None
   \<and> decodeRequest sampleEnv (pollEvent ''Bg=='') Map.empty = (Inl UnknownCorrelation, Map.empty)"
proof -
  have h1: "requestPrelude sampleEnv (pollEvent ''Bg=='')
     = Inr (pollContent, ''2vxsx-fae'', Read_state, JNum 1700000000, ''040a'', pollURL)"
    by (simp add: request_defs sample_defs)
  have h2: "getProp pollContent ''paths'' = Inr (JArr [JArr pollPath])"
    by (simp add: pollContent_def ownProperty_def)
  have h3: "readStateMessage sampleEnv (JArr [JArr pollPath]) = Inr ''0604''"
    by (simp add: request_defs sample_defs)
  have h4: "getDetails (Map.empty :: messageDetails) ''0604'' = None"
    by (simp add: getDetails_def)
  show ?thesis
    using h1 h2 h3 h4 unknown_correlation [OF h1 h2 h3 h4] by simp
qed

text \<open>
  C3. For a call or a query, the run of \<^verbatim>\<open>decodeRequest\<close> up to its \<^verbatim>\<open>await\<close> ends
  suspended on the argument decoder with the details of the message (the canister and
  the method) already written to \<^verbatim>\<open>messageDetails\<close> under the message identifier; and when
  the argument decoder fails, the run fails with \<open>ArgumentDecodeError\<close> and the
  dictionary still holds these details.
\<close>

theorem correlation_written_before_await:
  assumes "requestPrelude env event = Inr (request, s, rt, ie, rid, b)"
    and "rt = Query \<or> rt = Call"
    and "getProp request ''canister_id'' = Inr cr" and "asPrincipal env cr = Some cid"
    and "getProp request ''method_name'' = Inr m"
    and "getProp request ''arg'' = Inr a"
  shows "decodeRequestSync env event md =
           (AwaitingArgs
              \<lparr> message = rid, requestId = rid, canisterId = cid, methodName = m, sender = s,
                requestType = rt, ingressExpiry = ie, boundary = b \<rparr> a,
            putDetails md rid \<lparr> detailCanisterId = cid, detailMethod = m \<rparr>)
         \<and> getDetails (putDetails md rid \<lparr> detailCanisterId = cid, detailMethod = m \<rparr>) rid
             = Some \<lparr> detailCanisterId = cid, detailMethod = m \<rparr>
         \<and> (decodeCandidArgs env cid m a = None \<longrightarrow>
              decodeRequest env event md =
                (Inl ArgumentDecodeError,
                 putDetails md rid \<lparr> detailCanisterId = cid, detailMethod = m \<rparr>))"
  using sync_call [OF assms, of md]
  by (simp add: decodeRequest_def decodeRequestResume_def getDetails_def putDetails_def)

theorem correlation_written_before_await_witness:
  "requestPrelude failingEnv callEvent
     = Inr (callContent, ''2vxsx-fae'', Call, JNum 1700000000, ''0604'', callURL)
   \<and> (Call = Query \<or> Call = Call)
   \<and> getProp callContent ''canister_id'' = Inr (JBytes [])
   \<and> asPrincipal failingEnv (JBytes []) = Some ''aaaaa-aa''
   \<and> getProp callContent ''method_name'' = Inr (JStr ''greet'')
   \<and> getProp callContent ''arg'' = Inr (JBytes [0x44, 0x49, 0x44, 0x4C, 0, 0])
   \<and> decodeCandidArgs failingEnv ''aaaaa-aa'' (JStr ''greet'')
        (JBytes [0x44, 0x49, 0x44, 0x4C, 0, 0]) = None
   \<and> decodeRequestSync failingEnv callEvent Map.empty
       = (AwaitingArgs callCommon (JBytes [0x44, 0x49, 0x44, 0x4C, 0, 0]), sampleDetails)
   \<and> getDetails sampleDetails ''0604'' = Some greetDetail
   \<and> decodeRequest failingEnv callEvent Map.empty = (Inl ArgumentDecodeError, sampleDetails)"
proof -
  have h1: "requestPrelude failingEnv callEvent
     = Inr (callContent, ''2vxsx-fae'', Call, JNum 1700000000, ''0604'', callURL)"
    by (simp add: request_defs sample_defs)
  have h2: "Call = Query \<or> Call = Call"
    by simp
  have h3: "getProp callContent ''canister_id'' = Inr (JBytes [])"
    by (simp add: callContent_def ownProperty_def)
  have h4: "asPrincipal failingEnv (JBytes []) = Some ''aaaaa-aa''"
    by (simp add: sample_defs)
  have h5: "getProp callContent ''method_name'' = Inr (JStr ''greet'')"
    by (simp add: callContent_def ownProperty_def)
  have h6: "getProp callContent ''arg'' = Inr (JBytes [0x44, 0x49, 0x44, 0x4C, 0, 0])"
    by (simp add: callContent_def ownProperty_def)
  have h7: "decodeCandidArgs failingEnv ''aaaaa-aa'' (JStr ''greet'')
        (JBytes [0x44, 0x49, 0x44, 0x4C, 0, 0]) = None"
    by (simp add: sample_defs)
  show ?thesis
    using h1 h3 h4 h5 h6 h7
      correlation_written_before_await [OF h1 h2 h3 h4 h5 h6, of Map.empty]
    by (simp add: sampleDetails_def greetDetail_def callCommon_def)
qed

text \<open>
  C4. Reading \<^verbatim>\<open>messageDetails\<close> at an identifier right after storing details under it
  returns these details. And when a call or a query has been decoded, a read_state
  request whose first path's second label gives the message identifier of that call
  decodes to a request with the canister and the method of the call.
\<close>

theorem correlation_round_trip:
  "getDetails (putDetails md k d) k = Some d
   \<and> (decodeRequest env callEv md = (Inr r, md')
        \<and> requestType (common r) \<noteq> Read_state
        \<and> requestPrelude env pollEv = Inr (request, s, Read_state, ie, rid, b)
        \<and> getProp request ''paths'' = Inr paths
        \<and> readStateMessage env paths = Inr (message (common r))
      \<longrightarrow> decodeRequest env pollEv md' =
            (Inr (DecodedCallRequest
               \<lparr> message = message (common r), requestId = rid,
                 canisterId = canisterId (common r), methodName = methodName (common r),
                 sender = s, requestType = Read_state, ingressExpiry = ie,
                 boundary = b \<rparr> paths), md'))"
proof (intro conjI impI)
  show "getDetails (putDetails md k d) k = Some d"
    by (simp add: getDetails_def putDetails_def)
next
  assume h: "decodeRequest env callEv md = (Inr r, md')
        \<and> requestType (common r) \<noteq> Read_state
        \<and> requestPrelude env pollEv = Inr (request, s, Read_state, ie, rid, b)
        \<and> getProp request ''paths'' = Inr paths
        \<and> readStateMessage env paths = Inr (message (common r))"
  then have stored: "getDetails md' (message (common r)) =
      Some \<lparr> detailCanisterId = canisterId (common r), detailMethod = methodName (common r) \<rparr>"
    using decoded_request_origin [of env callEv md r md'] by (auto simp: getDetails_def)
  from h have "decodeRequest env pollEv md' =
           ((case getDetails md' (message (common r)) of
               None \<Rightarrow> Inl UnknownCorrelation
             | Some d \<Rightarrow> Inr (DecodedCallRequest
                 \<lparr> message = message (common r), requestId = rid,
                   canisterId = detailCanisterId d,
                   methodName = detailMethod d, sender = s, requestType = Read_state,
                   ingressExpiry = ie, boundary = b \<rparr> paths)), md')"
    using run_read_state by blast
  with stored show "decodeRequest env pollEv md' =
            (Inr (DecodedCallRequest
               \<lparr> message = message (common r), requestId = rid,
                 canisterId = canisterId (common r), methodName = methodName (common r),
                 sender = s, requestType = Read_state, ingressExpiry = ie,
                 boundary = b \<rparr> paths), md')"
    by simp
qed

theorem correlation_round_trip_witness:
  "decodeRequest sampleEnv callEvent Map.empty
     = (Inr (DecodedReadRequest callCommon (JBytes [0x44, 0x49, 0x44, 0x4C, 0, 0])),
        sampleDetails)
   \<and> requestType callCommon \<noteq> Read_state
   \<and> requestPrelude sampleEnv (pollEvent ''Bg=='')
       = Inr (pollContent, ''2vxsx-fae'', Read_state, JNum 1700000000, ''040a'', pollURL)
   \<and> getProp pollContent ''paths'' = Inr (JArr [JArr pollPath])
   \<and> readStateMessage sampleEnv (JArr [JArr pollPath]) = Inr (message callCommon)
   \<and> getDetails (putDetails Map.empty ''0604'' greetDetail) ''0604'' = Some greetDetail
   \<and> decodeRequest sampleEnv (pollEvent ''Bg=='') sampleDetails
       = (Inr pollRequest, sampleDetails)"
proof -
  have h1: "decodeRequest sampleEnv callEvent Map.empty
     = (Inr (DecodedReadRequest callCommon (JBytes [0x44, 0x49, 0x44, 0x4C, 0, 0])),
        sampleDetails)"
    by (simp add: request_defs sample_defs)
  have h2: "requestType callCommon \<noteq> Read_state"
    by (simp add: callCommon_def)
  have h3: "requestPrelude sampleEnv (pollEvent ''Bg=='')
       = Inr (pollContent, ''2vxsx-fae'', Read_state, JNum 1700000000, ''040a'', pollURL)"
    by (simp add: request_defs sample_defs)
  have h4: "getProp pollContent ''paths'' = Inr (JArr [JArr pollPath])"
    by (simp add: pollContent_def ownProperty_def)
  have h5: "readStateMessage sampleEnv (JArr [JArr pollPath]) = Inr (message callCommon)"
    by (simp add: request_defs sample_defs)
  show ?thesis
    using h1 h2 h3 h4 h5
      correlation_round_trip [of Map.empty "''0604''" greetDetail sampleEnv callEvent
        "DecodedReadRequest callCommon (JBytes [0x44, 0x49, 0x44, 0x4C, 0, 0])"
        sampleDetails "pollEvent ''Bg==''" pollContent "''2vxsx-fae''" "JNum 1700000000"
        "''040a''" pollURL "JArr [JArr pollPath]"]
    by (simp add: pollRequest_def callCommon_def)
qed

text \<open>
  C5. When the content of the response is missing or empty, \<^verbatim>\<open>decodeResponse\<close> returns
  the bare status 'unknown' and no error, whatever the request it is paired with (a
  query, a call or a read_state) and whatever the dictionary holds.
\<close>

theorem empty_body_unknown:
  assumes "content event = None \<or> content event = Some []"
  shows "decodeResponse env event request md = Inr (Some (StatusResponse (JStr ''unknown'')))"
  using assms by (auto simp: decodeResponse_def)

theorem empty_body_unknown_witness:
  "(content (queryEvent []) = None \<or> content (queryEvent []) = Some [])
   \<and> decodeResponse sampleEnv (queryEvent []) queryRequest sampleDetails
       = Inr (Some (StatusResponse (JStr ''unknown'')))
   \<and> (content (pollEvent []) = None \<or> content (pollEvent []) = Some [])
   \<and> decodeResponse sampleEnv (pollEvent []) pollRequest sampleDetails
       = Inr (Some (StatusResponse (JStr ''unknown'')))"
proof -
  have h1: "content (queryEvent []) = None \<or> content (queryEvent []) = Some []"
    by (simp add: queryEvent_def)
  have h2: "content (pollEvent []) = None \<or> content (pollEvent []) = Some []"
    by (simp add: pollEvent_def)
  show ?thesis
    using h1 h2 empty_body_unknown [OF h1, of sampleEnv queryRequest sampleDetails]
      empty_body_unknown [OF h2, of sampleEnv pollRequest sampleDetails]
    by simp
qed




text \<open>
  C7. For a response with a certificate that passes the checks of its branch, when the
  status read from the certificate is 'done', \<^verbatim>\<open>decodeResponse\<close> fails with
  \<open>DoneWithoutReply\<close> and returns no response. The decoder keeps no record of earlier
  polls, so this holds for every such response.
\<close>

theorem done_is_fatal:
  assumes "content event = Some c" and "c \<noteq> []" and "responseEnvelope env c = Inr response"
    and "js_in ''certificate'' response = Inr True"
    and "js_in ''status'' response = Inr False"
    and "readStateContext env response request md = Inr (cert, flat, details)"
    and "cert (flat @ [JBytes (textEncode env ''status'')]) = Found result"
    and "textDecode env result = ''done''"
  shows "decodeResponse env event request md = Inl DoneWithoutReply"
  using readState_switch [OF assms(1-6)] assms(7,8)
  by (simp add: readStateStatus_def readStateOutcome_def lookup_def andThen_def)

theorem done_is_fatal_witness:
  "content (pollEvent ''BQ=='') = Some ''BQ=='' \<and> ''BQ=='' \<noteq> []
   \<and> responseEnvelope sampleEnv ''BQ=='' = Inr doneBody
   \<and> js_in ''certificate'' doneBody = Inr True
   \<and> js_in ''status'' doneBody = Inr False
   \<and> readStateContext sampleEnv doneBody pollRequest sampleDetails
       = Inr (sampleLookup [leaf ''status'' (sampleEncode ''done'')], pollPath, greetDetail)
   \<and> sampleLookup [leaf ''status'' (sampleEncode ''done'')]
        (pollPath @ [JBytes (textEncode sampleEnv ''status'')]) = Found (sampleEncode ''done'')
   \<and> textDecode sampleEnv (sampleEncode ''done'') = ''done''
   \<and> decodeResponse sampleEnv (pollEvent ''BQ=='') pollRequest sampleDetails
       = Inl DoneWithoutReply"
proof -
  have h1: "content (pollEvent ''BQ=='') = Some ''BQ==''"
    by (simp add: pollEvent_def)
  have h2: "''BQ=='' \<noteq> []"
    by simp
  have h3: "responseEnvelope sampleEnv ''BQ=='' = Inr doneBody"
    by (simp add: response_defs sample_defs)
  have h4: "js_in ''certificate'' doneBody = Inr True"
    by (simp add: doneBody_def)
  have h5: "js_in ''status'' doneBody = Inr False"
    by (simp add: doneBody_def)
  have h6: "readStateContext sampleEnv doneBody pollRequest sampleDetails
       = Inr (sampleLookup [leaf ''status'' (sampleEncode ''done'')], pollPath, greetDetail)"
    unfolding doneBody_def
    by (simp add: readStateContext_def andThen_def orThrow_def getDetails_def putDetails_def
        ownProperty_def sampleEnv_def sampleCertificate_def sampleDecode_def sampleEncode_def
        pollRequest_def pollPath_def sampleDetails_def greetDetail_def char_of_eq_iff)
  have h7: "sampleLookup [leaf ''status'' (sampleEncode ''done'')]
        (pollPath @ [JBytes (textEncode sampleEnv ''status'')]) = Found (sampleEncode ''done'')"
    by (simp add: sample_defs)
  have h8: "textDecode sampleEnv (sampleEncode ''done'') = ''done''"
    by (simp add: sample_defs)
  show ?thesis
    using h1 h3 h4 h5 h6 h7 h8 done_is_fatal [OF h1 h2 h3 h4 h5 h6 h7 h8]
    by simp
qed

text \<open>
  C8, as stated: a response that carries a \<^verbatim>\<open>certificate\<close> key fails with
  \<open>ResponseRequestMismatch\<close> unless it is paired with a read_state request. The decoder
  looks at the \<^verbatim>\<open>status\<close> key first: the sample response with both keys, paired with
  the sample query, is decoded as a query response.
\<close>

theorem certificate_with_status_counterexample:
  "responseEnvelope sampleEnv ''CA=='' = Inr bothKeys
   \<and> js_in ''certificate'' bothKeys = Inr True
   \<and> requestType (common queryRequest) \<noteq> Read_state
   \<and> decodeResponse sampleEnv (queryEvent ''CA=='') queryRequest sampleDetails
       = Inr (Some (RejectedResponse (JStr ''rejected'') JUndefined JUndefined))
   \<and> decodeResponse sampleEnv (queryEvent ''CA=='') queryRequest sampleDetails
       \<noteq> Inl ResponseRequestMismatch"
  by (simp add: response_defs sample_defs)

text \<open>
  C8, amended: a decoded response with a \<^verbatim>\<open>status\<close> key fails with
  \<open>ResponseRequestMismatch\<close> unless it is paired with a query request; a decoded response
  with a \<^verbatim>\<open>certificate\<close> key and no \<^verbatim>\<open>status\<close> key fails with
  \<open>ResponseRequestMismatch\<close> unless it is paired with a read_state request. Each half
  holds on its own, for every event, request, dictionary and instance of the
  collaborators.
\<close>

theorem response_request_mismatch:
  "(content event1 = Some c1 \<and> c1 \<noteq> []
      \<and> responseEnvelope env1 c1 = Inr response1
      \<and> js_in ''status'' response1 = Inr True
      \<and> requestType (common request1) \<noteq> Query
    \<longrightarrow> decodeResponse env1 event1 request1 md1 = Inl ResponseRequestMismatch)
   \<and> (content event2 = Some c2 \<and> c2 \<noteq> []
      \<and> responseEnvelope env2 c2 = Inr response2
      \<and> js_in ''certificate'' response2 = Inr True
      \<and> js_in ''status'' response2 = Inr False
      \<and> requestType (common request2) \<noteq> Read_state
    \<longrightarrow> decodeResponse env2 event2 request2 md2 = Inl ResponseRequestMismatch)"
proof (intro conjI impI)
  assume "content event1 = Some c1 \<and> c1 \<noteq> []
      \<and> responseEnvelope env1 c1 = Inr response1
      \<and> js_in ''status'' response1 = Inr True
      \<and> requestType (common request1) \<noteq> Query"
  then show "decodeResponse env1 event1 request1 md1 = Inl ResponseRequestMismatch"
    by (simp add: decodeResponse_body body_status queryResponse_def)
next
  assume "content event2 = Some c2 \<and> c2 \<noteq> []
      \<and> responseEnvelope env2 c2 = Inr response2
      \<and> js_in ''certificate'' response2 = Inr True
      \<and> js_in ''status'' response2 = Inr False
      \<and> requestType (common request2) \<noteq> Read_state"
  then show "decodeResponse env2 event2 request2 md2 = Inl ResponseRequestMismatch"
    by (simp add: decodeResponse_body body_certificate readStateResponse_def
        readStateContext_def andThen_def)
qed

theorem response_request_mismatch_witness:
  "content (pollEvent ''Bw=='') = Some ''Bw=='' \<and> ''Bw=='' \<noteq> []
   \<and> responseEnvelope sampleEnv ''Bw=='' = Inr queryRejected
   \<and> js_in ''status'' queryRejected = Inr True
   \<and> requestType (common pollRequest) \<noteq> Query
   \<and> decodeResponse sampleEnv (pollEvent ''Bw=='') pollRequest sampleDetails
       = Inl ResponseRequestMismatch
   \<and> content (queryEvent ''Bg=='') = Some ''Bg=='' \<and> ''Bg=='' \<noteq> []
   \<and> responseEnvelope failingEnv ''Bg=='' = Inr prunedBody
   \<and> js_in ''certificate'' prunedBody = Inr True
   \<and> js_in ''status'' prunedBody = Inr False
   \<and> requestType (common queryRequest) \<noteq> Read_state
   \<and> decodeResponse failingEnv (queryEvent ''Bg=='') queryRequest Map.empty
       = Inl ResponseRequestMismatch"
proof -
  have h1: "content (pollEvent ''Bw=='') = Some ''Bw==''"
    by (simp add: pollEvent_def)
  have h2: "''Bw=='' \<noteq> []"
    by simp
  have h3: "responseEnvelope sampleEnv ''Bw=='' = Inr queryRejected"
    by (simp add: response_defs sample_defs)
  have h4: "js_in ''status'' queryRejected = Inr True"
    by (simp add: queryRejected_def)
  have h5: "requestType (common pollRequest) \<noteq> Query"
    by (simp add: pollRequest_def)
  have h6: "content (queryEvent ''Bg=='') = Some ''Bg==''"
    by (simp add: queryEvent_def)
  have h7: "''Bg=='' \<noteq> []"
    by simp
  have h8: "responseEnvelope failingEnv ''Bg=='' = Inr prunedBody"
    by (simp add: response_defs sample_defs)
  have h9: "js_in ''certificate'' prunedBody = Inr True"
    by (simp add: prunedBody_def)
  have h10: "js_in ''status'' prunedBody = Inr False"
    by (simp add: prunedBody_def)
  have h11: "requestType (common queryRequest) \<noteq> Read_state"
    by (simp add: queryRequest_def)
  show ?thesis
    using h1 h2 h3 h4 h5 h6 h7 h8 h9 h10 h11
      response_request_mismatch [of "pollEvent ''Bw==''" "''Bw==''" sampleEnv queryRejected
        pollRequest sampleDetails "queryEvent ''Bg==''" "''Bg==''" failingEnv prunedBody
        queryRequest Map.empty]
    by simp
qed

text \<open>
  C9. The request identifier of a decoded request is the hexadecimal form of the hash
  that \<^verbatim>\<open>requestIdOf\<close> computes from the decoded content, by the same expression for a
  query, a call and a read_state. So two runs of \<^verbatim>\<open>decodeRequest\<close> on events with the
  same request body give the same request identifier, and for a call or a query the same
  message identifier, even when the dictionary, the URL, the response and the outcome of
  the argument decoder differ between the runs.
\<close>

theorem message_identifier_deterministic:
  assumes "decodeRequest env event md = (Inr r, md')"
    and "decodeRequest env' event' md2 = (Inr r', md2')"
    and "postDataText event' = postDataText event"
    and "btoa env' = btoa env" and "base64ToBytes env' = base64ToBytes env"
    and "cborDecode env' = cborDecode env" and "requestIdOf env' = requestIdOf env"
    and "toHexString env' = toHexString env"
  shows "requestId (common r') = requestId (common r)
         \<and> (requestType (common r) \<noteq> Read_state \<longrightarrow> message (common r') = message (common r))
         \<and> (\<exists>request s rt ie b idb.
               requestPrelude env event = Inr (request, s, rt, ie, toHexString env idb, b)
               \<and> requestIdOf env request = Some idb
               \<and> requestId (common r) = toHexString env idb)"
proof -
  from assms(1) obtain request s rt ie rid b where
    p: "requestPrelude env event = Inr (request, s, rt, ie, rid, b)"
    and r: "requestId (common r) = rid" "requestType (common r) = rt"
      "rt \<noteq> Read_state \<longrightarrow> message (common r) = rid"
    using decoded_request_origin by blast
  from assms(2) obtain request' s' rt' ie' rid' b' where
    p': "requestPrelude env' event' = Inr (request', s', rt', ie', rid', b')"
    and r': "requestId (common r') = rid'" "requestType (common r') = rt'"
      "rt' \<noteq> Read_state \<longrightarrow> message (common r') = rid'"
    using decoded_request_origin by blast
  from prelude_source [OF p] obtain t b64 bs result idb where
    src: "postDataText event = Some t" "btoa env t = Some b64"
      "base64ToBytes env b64 = Some bs" "cborDecode env bs = Some result"
      "getProp result ''content'' = Inr request"
      "requestIdOf env request = Some idb" "rid = toHexString env idb"
    by blast
  from prelude_source [OF p'] obtain t' b64' bs' result' idb' where
    src': "postDataText event' = Some t'" "btoa env' t' = Some b64'"
      "base64ToBytes env' b64' = Some bs'" "cborDecode env' bs' = Some result'"
      "getProp result' ''content'' = Inr request'"
      "requestIdOf env' request' = Some idb'" "rid' = toHexString env' idb'"
    by blast
  have same: "request' = request" "rid' = rid"
    using src src' assms(3-8) by auto
  have kind: "rt' = rt"
    using prelude_kind [OF p] prelude_kind [OF p'] same(1) by auto
  show ?thesis
    using p r r' same kind src(6,7) by auto
qed

theorem message_identifier_deterministic_witness:
  "decodeRequest sampleEnv callEvent Map.empty
     = (Inr (DecodedReadRequest callCommon (JBytes [0x44, 0x49, 0x44, 0x4C, 0, 0])),
        sampleDetails)
   \<and> decodeRequest wrappingEnv (callEvent \<lparr> content := Some ''Bg=='' \<rparr>) sampleDetails
     = (Inr (DecodedReadRequest callCommon
          (JObj [(''result'', JBytes [0x44, 0x49, 0x44, 0x4C, 0, 0]),
                 (''withInterface'', JBool False)])), sampleDetails)
   \<and> postDataText (callEvent \<lparr> content := Some ''Bg=='' \<rparr>) = postDataText callEvent
   \<and> btoa wrappingEnv = btoa sampleEnv
   \<and> base64ToBytes wrappingEnv = base64ToBytes sampleEnv
   \<and> cborDecode wrappingEnv = cborDecode sampleEnv
   \<and> requestIdOf wrappingEnv = requestIdOf sampleEnv
   \<and> toHexString wrappingEnv = toHexString sampleEnv
   \<and> requestType callCommon \<noteq> Read_state
   \<and> requestId callCommon = ''0604'' \<and> message callCommon = ''0604''
   \<and> (\<exists>request s rt ie b idb.
         requestPrelude sampleEnv callEvent
           = Inr (request, s, rt, ie, toHexString sampleEnv idb, b)
         \<and> requestIdOf sampleEnv request = Some idb
         \<and> requestId callCommon = toHexString sampleEnv idb)"
proof -
  have h1: "decodeRequest sampleEnv callEvent Map.empty
     = (Inr (DecodedReadRequest callCommon (JBytes [0x44, 0x49, 0x44, 0x4C, 0, 0])),
        sampleDetails)"
    by (simp add: request_defs sample_defs)
  have h2: "decodeRequest wrappingEnv (callEvent \<lparr> content := Some ''Bg=='' \<rparr>) sampleDetails
     = (Inr (DecodedReadRequest callCommon
          (JObj [(''result'', JBytes [0x44, 0x49, 0x44, 0x4C, 0, 0]),
                 (''withInterface'', JBool False)])), sampleDetails)"
    by (simp add: request_defs sample_defs)
  have h3: "postDataText (callEvent \<lparr> content := Some ''Bg=='' \<rparr>) = postDataText callEvent"
    by simp
  have h4: "btoa wrappingEnv = btoa sampleEnv"
    and h5: "base64ToBytes wrappingEnv = base64ToBytes sampleEnv"
    and h6: "cborDecode wrappingEnv = cborDecode sampleEnv"
    and h7: "requestIdOf wrappingEnv = requestIdOf sampleEnv"
    and h8: "toHexString wrappingEnv = toHexString sampleEnv"
    by (simp_all add: wrappingEnv_def)
  have h9: "requestType callCommon \<noteq> Read_state"
    and h10: "requestId callCommon = ''0604''" and h11: "message callCommon = ''0604''"
    by (simp_all add: callCommon_def)
  show ?thesis
    using h1 h2 h3 h4 h5 h6 h7 h8 h9 h10 h11
      message_identifier_deterministic [OF h1 h2 h3 h4 h5 h6 h7 h8]
    by simp
qed

text \<open>
  C10. For a decoded response with a \<^verbatim>\<open>status\<close> key paired with a query request, when
  the value of \<^verbatim>\<open>status\<close> is anything but the string 'replied', \<^verbatim>\<open>decodeResponse\<close>
  returns the rejected shape: the status as it is, and as message and code the values of
  the properties \<^verbatim>\<open>reject_message\<close> and \<^verbatim>\<open>reject_code\<close>, which are \<^verbatim>\<open>undefined\<close> when
  the response has no such property. No check is made on them.
\<close>

theorem query_not_replied_is_rejected:
  assumes "content event = Some c" and "c \<noteq> []"
    and "responseEnvelope env c = Inr (JObj ps)"
    and "''status'' \<in> set (map fst ps)"
    and "requestType (common request) = Query"
    and "ownProperty ps ''status'' \<noteq> JStr ''replied''"
  shows "decodeResponse env event request md =
           Inr (Some (RejectedResponse (ownProperty ps ''status'')
                  (ownProperty ps ''reject_message'') (ownProperty ps ''reject_code'')))"
proof -
  have "js_in ''status'' (JObj ps) = Inr True"
    using assms(4) by simp
  then have "decodeResponse env event request md = queryResponse env (JObj ps) request"
    using assms(1-3) by (simp add: decodeResponse_body body_status)
  then show ?thesis
    using assms(5,6) by (simp add: queryResponse_def andThen_def)
qed

theorem query_not_replied_is_rejected_witness:
  "content (queryEvent ''Bw=='') = Some ''Bw=='' \<and> ''Bw=='' \<noteq> []
   \<and> responseEnvelope sampleEnv ''Bw=='' = Inr (JObj [(''status'', JStr ''rejected'')])
   \<and> ''status'' \<in> set (map fst [(''status'', JStr ''rejected'')])
   \<and> requestType (common queryRequest) = Query
   \<and> ownProperty [(''status'', JStr ''rejected'')] ''status'' \<noteq> JStr ''replied''
   \<and> decodeResponse sampleEnv (queryEvent ''Bw=='') queryRequest sampleDetails
       = Inr (Some (RejectedResponse (JStr ''rejected'') JUndefined JUndefined))"
proof -
  have h1: "content (queryEvent ''Bw=='') = Some ''Bw==''"
    by (simp add: queryEvent_def)
  have h2: "''Bw=='' \<noteq> []"
    by simp
  have h3: "responseEnvelope sampleEnv ''Bw=='' = Inr (JObj [(''status'', JStr ''rejected'')])"
    by (simp add: response_defs sample_defs)
  have h4: "''status'' \<in> set (map fst [(''status'', JStr ''rejected'')])"
    by simp
  have h5: "requestType (common queryRequest) = Query"
    by (simp add: queryRequest_def)
  have h6: "ownProperty [(''status'', JStr ''rejected'')] ''status'' \<noteq> JStr ''replied''"
    by (simp add: ownProperty_def)
  show ?thesis
    using h1 h3 h4 h5 h6
      query_not_replied_is_rejected [OF h1 h2 h3 h4 h5 h6, of sampleDetails]
    by (simp add: ownProperty_def)
qed

end
